theory Spec2Isabelle
  imports Complex_Main
begin

section \<open>Body-composition metrics from segmented whole-body MRI\<close>

text \<open>
  A shallow embedding of \<^verbatim>\<open>streamlit_app.py\<close>: the function
  \<^verbatim>\<open>analyze_voxel_data\<close> (the loop over the uploaded files, the three volumes and the
  eight-row result) and the gate of the main page that decides whether it is called.

  A floating-point number is a \<open>real\<close>. The single-precision arithmetic on the
  spacings of a header (line 54) rounds through a parameter of the model, so that a
  product too small for single precision can be stored as 0.0; the double-precision
  arithmetic of lines 61 to 77 is idealised as exact. \<^verbatim>\<open>inf\<close> and \<^verbatim>\<open>nan\<close> are outside
  the model. Python's integers are \<open>int\<close>. A Python value that is a number or
  \<^verbatim>\<open>None\<close> is a \<open>real option\<close>. An exception is a value \<open>Inl e\<close> of the sum type
  \<open>py_error + 'a\<close>.
\<close>

subsection \<open>Constants (lines 10 to 13)\<close>

definition file_names :: "string list" where
  "file_names = [''skeletal_muscle.nii.gz'', ''subcutaneous_fat.nii.gz'', ''torso_fat.nii.gz'']"

definition masse_vol_graisse :: real where
  "masse_vol_graisse = 0.9196"

definition masse_vol_muscle :: real where
  "masse_vol_muscle = 1.06"

subsection \<open>Python values and exceptions\<close>

text \<open>
  \<open>ZeroDivisionError\<close> stands for the outcome of a true division by a zero number: the
  exception of that name for Python floats, \<^verbatim>\<open>inf\<close> or \<^verbatim>\<open>nan\<close> with a warning for
  NumPy scalars.
\<close>

datatype py_error = TypeError | IndexError | ZeroDivisionError

type_synonym py_number = "real option"

text \<open>Sequencing of two computations that may raise: the first exception wins.\<close>

definition and_then :: "py_error + 'a \<Rightarrow> ('a \<Rightarrow> py_error + 'b) \<Rightarrow> py_error + 'b" where
  "and_then m k = (case m of Inl e \<Rightarrow> Inl e | Inr x \<Rightarrow> k x)"

text \<open>\<^verbatim>\<open>a / b\<close>: dividing with \<^verbatim>\<open>None\<close> on either side is a \<^verbatim>\<open>TypeError\<close>.\<close>

definition py_truediv :: "py_number \<Rightarrow> py_number \<Rightarrow> py_error + py_number" where
  "py_truediv a b =
     (case a of
        None \<Rightarrow> Inl TypeError
      | Some x \<Rightarrow>
          (case b of
             None \<Rightarrow> Inl TypeError
           | Some y \<Rightarrow> if y = 0 then Inl ZeroDivisionError else Inr (Some (x / y))))"

text \<open>\<^verbatim>\<open>a + b\<close>: adding with \<^verbatim>\<open>None\<close> on either side is a \<^verbatim>\<open>TypeError\<close>.\<close>

definition py_add :: "py_number \<Rightarrow> py_number \<Rightarrow> py_error + py_number" where
  "py_add a b =
     (case a of
        None \<Rightarrow> Inl TypeError
      | Some x \<Rightarrow> (case b of None \<Rightarrow> Inl TypeError | Some y \<Rightarrow> Inr (Some (x + y))))"

text \<open>
  \<^verbatim>\<open>count * voxel_volume\<close> for an integer count: \<^verbatim>\<open>voxel_volume\<close> is still
  \<^verbatim>\<open>None\<close> when no recognized file was read, and \<^verbatim>\<open>int * None\<close> is a \<^verbatim>\<open>TypeError\<close>.
\<close>

definition py_mul_count :: "int \<Rightarrow> py_number \<Rightarrow> py_error + py_number" where
  "py_mul_count c v = (case v of None \<Rightarrow> Inl TypeError | Some x \<Rightarrow> Inr (Some (of_int c * x)))"

text \<open>Truth value of a number or \<^verbatim>\<open>None\<close>: \<^verbatim>\<open>None\<close> and \<^verbatim>\<open>0.0\<close> are false.\<close>

definition truthy :: "py_number \<Rightarrow> bool" where
  "truthy a = (case a of None \<Rightarrow> False | Some x \<Rightarrow> x \<noteq> 0)"

subsection \<open>Uploaded files\<close>

text \<open>
  An uploaded file with what the image library reads from it: \<open>data\<close> is the voxel
  array of \<^verbatim>\<open>img.get_fdata()\<close> (flattened; only the number of positive entries is used)
  and \<open>zooms\<close> is the tuple \<^verbatim>\<open>img.header.get_zooms()\<close>, one spacing per axis of the
  image. Decoding itself belongs to the library and is not modelled.
\<close>

record uploaded_file =
  name :: string
  data :: "real list"
  zooms :: "real list"

text \<open>\<^verbatim>\<open>(data > 0).sum()\<close> (line 53).\<close>

definition voxel_count :: "real list \<Rightarrow> int" where
  "voxel_count d = int (length (filter (\<lambda>x. 0 < x) d))"

text \<open>\<^verbatim>\<open>get_zooms()[i]\<close>: indexing a tuple past its end raises \<^verbatim>\<open>IndexError\<close>.\<close>

definition get_zoom :: "real list \<Rightarrow> nat \<Rightarrow> py_error + real" where
  "get_zoom zs i = (if i < length zs then Inr (zs ! i) else Inl IndexError)"

text \<open>
  The spacings are single-precision numbers, and NumPy multiplies them, and divides by
  the integer 1000, in single precision: each operation stores the single-precision
  number nearest to its exact result, and a result too small for the format is stored as
  0.0. The rounding is not part of the source. The model takes it as the parameter
  \<open>fl\<close>, the function from the exact result of an operation to the number stored. A
  result too large for the format, stored as \<^verbatim>\<open>inf\<close>, is outside the model.
\<close>

type_synonym rounding = "real \<Rightarrow> real"

text \<open>Line 54: \<^verbatim>\<open>abs(zooms[0] * zooms[1] * zooms[2]) / 1000\<close>.\<close>

definition header_voxel_volume :: "rounding \<Rightarrow> real list \<Rightarrow> py_error + real" where
  "header_voxel_volume fl zs =
     and_then (get_zoom zs 0) (\<lambda>z0.
     and_then (get_zoom zs 1) (\<lambda>z1.
     and_then (get_zoom zs 2) (\<lambda>z2.
       Inr (fl (\<bar>fl (fl (z0 * z1) * z2)\<bar> / 1000)))))"

subsection \<open>The loop over the uploaded files (lines 40 to 55)\<close>

text \<open>
  The state of the loop is the dictionary \<^verbatim>\<open>voxel_data\<close> and the variable
  \<^verbatim>\<open>voxel_volume\<close>. A file whose name is not in \<open>file_names\<close> is skipped; a
  recognized file overwrites \<^verbatim>\<open>voxel_volume\<close> and its own entry of the dictionary.
\<close>

type_synonym voxel_data = "string \<rightharpoonup> int"

definition read_file :: "rounding \<Rightarrow> uploaded_file \<Rightarrow> voxel_data \<times> py_number \<Rightarrow> py_error + voxel_data \<times> py_number" where
  "read_file fl uploaded_file s =
     (if name uploaded_file \<in> set file_names then
        and_then (header_voxel_volume fl (zooms uploaded_file)) (\<lambda>v.
          Inr ((fst s)(name uploaded_file \<mapsto> voxel_count (data uploaded_file)), Some v))
      else Inr s)"

fun read_files :: "rounding \<Rightarrow> uploaded_file list \<Rightarrow> voxel_data \<times> py_number \<Rightarrow> py_error + voxel_data \<times> py_number" where
  "read_files fl [] s = Inr s"
| "read_files fl (f # fs) s = and_then (read_file fl f s) (read_files fl fs)"

definition load_voxel_data :: "rounding \<Rightarrow> uploaded_file list \<Rightarrow> py_error + voxel_data \<times> py_number" where
  "load_voxel_data fl uploaded_files = read_files fl uploaded_files (Map.empty, None)"

subsection \<open>Volumes, masses and ratios (lines 57 to 78)\<close>

text \<open>\<^verbatim>\<open>voxel_data.get(key, 0)\<close>.\<close>

definition get_count :: "voxel_data \<Rightarrow> string \<Rightarrow> int" where
  "get_count vd k = (case vd k of None \<Rightarrow> 0 | Some c \<Rightarrow> c)"

text \<open>Lines 61 to 63: \<^verbatim>\<open>count * voxel_volume if count else None\<close>.\<close>

definition volume_of :: "int \<Rightarrow> py_number \<Rightarrow> py_error + py_number" where
  "volume_of c voxel_volume = (if c \<noteq> 0 then py_mul_count c voxel_volume else Inr None)"

text \<open>Lines 70 to 77: \<^verbatim>\<open>volume * density / 1000 if volume else None\<close>.\<close>

definition mass_of :: "py_number \<Rightarrow> real \<Rightarrow> py_number" where
  "mass_of volume density = (if truthy volume then Some (the volume * density / 1000) else None)"

text \<open>
  The labels of the eight rows. The source file is UTF-8; the two characters outside
  ASCII are written as their bytes.
\<close>

definition cubed :: string where
  "cubed = [CHR 0xC2, CHR 0xB3]"

definition e_acute :: string where
  "e_acute = [CHR 0xC3, CHR 0xA9]"

definition labels :: "string list" where
  "labels =
     [''Volume Muscle (cm'' @ cubed @ '')'',
      ''Volume Graisse Sous-cutan'' @ e_acute @ ''e (cm'' @ cubed @ '')'',
      ''Volume Graisse Viscerale (cm'' @ cubed @ '')'',
      ''Masse Muscle (kg)'',
      ''Masse Graisse Sous-cutan'' @ e_acute @ ''e (kg)'',
      ''Masse Graisse Viscerale (kg)'',
      ''Rapport Graisse Sous-cutan'' @ e_acute @ ''e / Viscerale'',
      ''Rapport Graisse / Muscle'']"

text \<open>
  The three volumes, in the order the source computes them: muscle, visceral fat
  (\<^verbatim>\<open>torso_fat\<close>), subcutaneous fat.
\<close>

definition tissue_volumes :: "voxel_data \<Rightarrow> py_number \<Rightarrow> py_error + py_number \<times> py_number \<times> py_number" where
  "tissue_volumes vd voxel_volume =
     and_then (volume_of (get_count vd ''skeletal_muscle.nii.gz'') voxel_volume) (\<lambda>volume_muscle.
     and_then (volume_of (get_count vd ''torso_fat.nii.gz'') voxel_volume) (\<lambda>volume_graisse_viscerale.
     and_then (volume_of (get_count vd ''subcutaneous_fat.nii.gz'') voxel_volume) (\<lambda>volume_graisse_sous_cut.
       Inr (volume_muscle, volume_graisse_viscerale, volume_graisse_sous_cut))))"

text \<open>
  The list \<^verbatim>\<open>result\<close>, built left to right: the first six rows cannot raise, the two
  ratios can.
\<close>

definition result_rows :: "py_number \<Rightarrow> py_number \<Rightarrow> py_number \<Rightarrow> py_error + (string \<times> py_number) list" where
  "result_rows volume_muscle volume_graisse_viscerale volume_graisse_sous_cut =
     and_then (py_truediv (mass_of volume_graisse_sous_cut masse_vol_graisse)
                          (mass_of volume_graisse_viscerale masse_vol_graisse)) (\<lambda>rapport_sc_visc.
     and_then (py_add (mass_of volume_graisse_sous_cut masse_vol_graisse)
                      (mass_of volume_graisse_viscerale masse_vol_graisse)) (\<lambda>masse_graisse.
     and_then (py_truediv masse_graisse (mass_of volume_muscle masse_vol_muscle)) (\<lambda>rapport_graisse_muscle.
       Inr (zip labels
         [volume_muscle,
          volume_graisse_sous_cut,
          volume_graisse_viscerale,
          mass_of volume_muscle masse_vol_muscle,
          mass_of volume_graisse_sous_cut masse_vol_graisse,
          mass_of volume_graisse_viscerale masse_vol_graisse,
          rapport_sc_visc,
          rapport_graisse_muscle]))))"

definition compute_metrics :: "voxel_data \<Rightarrow> py_number \<Rightarrow> py_error + (string \<times> py_number) list" where
  "compute_metrics vd voxel_volume =
     and_then (tissue_volumes vd voxel_volume) (\<lambda>(volume_muscle, volume_graisse_viscerale, volume_graisse_sous_cut).
       result_rows volume_muscle volume_graisse_viscerale volume_graisse_sous_cut)"

text \<open>The whole function; the data frame it returns is the list of its rows.\<close>

definition analyze_voxel_data :: "rounding \<Rightarrow> uploaded_file list \<Rightarrow> py_error + (string \<times> py_number) list" where
  "analyze_voxel_data fl uploaded_files =
     and_then (load_voxel_data fl uploaded_files) (\<lambda>(vd, voxel_volume). compute_metrics vd voxel_volume)"

subsection \<open>The gate of the main page (lines 122 to 141)\<close>

text \<open>
  What the page shows for a list of uploaded files: nothing for an empty list, the
  error with the missing and the extra names, the results of \<open>analyze_voxel_data\<close>
  (the only branch that calls it), or the warning.
\<close>

datatype page = Nothing_shown
  | Error_shown "string list" "string list"
  | Results_shown "py_error + (string \<times> py_number) list"
  | Warning_shown

definition main_page :: "rounding \<Rightarrow> uploaded_file list \<Rightarrow> page" where
  "main_page fl uploaded_files =
     (if uploaded_files \<noteq> [] then
        (let uploaded_filenames = map name uploaded_files;
             missing_files = filter (\<lambda>f. f \<notin> set uploaded_filenames) file_names;
             extra_files = filter (\<lambda>f. f \<notin> set file_names) uploaded_filenames
         in if missing_files \<noteq> [] \<or> extra_files \<noteq> [] then Error_shown missing_files extra_files
            else if length uploaded_files = 3 then Results_shown (analyze_voxel_data fl uploaded_files)
            else Warning_shown)
      else Nothing_shown)"

subsection \<open>Notions used to state the properties\<close>

text \<open>The uploaded files the loop reads, and those of them with a given name.\<close>

definition recognized :: "uploaded_file list \<Rightarrow> uploaded_file list" where
  "recognized fs = filter (\<lambda>f. name f \<in> set file_names) fs"

definition named :: "string \<Rightarrow> uploaded_file list \<Rightarrow> uploaded_file list" where
  "named k fs = filter (\<lambda>f. name f = k) fs"

text \<open>
  Example uploads: a muscle file with two positive voxels out of three, and a
  subcutaneous-fat file with no positive voxel; no visceral-fat file.
\<close>

definition two_uploads :: "uploaded_file list" where
  "two_uploads =
     [\<lparr>name = ''skeletal_muscle.nii.gz'', data = [1, 0, 2], zooms = [1, 2, 3]\<rparr>,
      \<lparr>name = ''subcutaneous_fat.nii.gz'', data = [0, 0], zooms = [1, 2, 3]\<rparr>]"

text \<open>
  Three uploads that pass the gate, each with a positive voxel; their headers give
  three different voxel volumes.
\<close>

definition three_uploads :: "uploaded_file list" where
  "three_uploads =
     [\<lparr>name = ''skeletal_muscle.nii.gz'', data = [1, 0, 2], zooms = [1, 1, 1]\<rparr>,
      \<lparr>name = ''subcutaneous_fat.nii.gz'', data = [5], zooms = [2, 2, 2]\<rparr>,
      \<lparr>name = ''torso_fat.nii.gz'', data = [0, 3, 4, 1], zooms = [1, 2, 5]\<rparr>]"

text \<open>Three uploads that pass the gate; the visceral-fat mask has no positive voxel.\<close>

definition empty_torso_uploads :: "uploaded_file list" where
  "empty_torso_uploads =
     [\<lparr>name = ''skeletal_muscle.nii.gz'', data = [1, 0, 2], zooms = [1, 2, 3]\<rparr>,
      \<lparr>name = ''subcutaneous_fat.nii.gz'', data = [5], zooms = [1, 2, 3]\<rparr>,
      \<lparr>name = ''torso_fat.nii.gz'', data = [0, 0], zooms = [1, 2, 3]\<rparr>]"

text \<open>The counts of the fixture of the specification, and a smaller dictionary.\<close>

definition fixture_counts :: voxel_data where
  "fixture_counts =
     [''skeletal_muscle.nii.gz'' \<mapsto> 1000000, ''subcutaneous_fat.nii.gz'' \<mapsto> 500000,
      ''torso_fat.nii.gz'' \<mapsto> 200000]"

definition small_counts :: voxel_data where
  "small_counts =
     [''skeletal_muscle.nii.gz'' \<mapsto> 2, ''subcutaneous_fat.nii.gz'' \<mapsto> 3,
      ''torso_fat.nii.gz'' \<mapsto> 4]"

text \<open>
  The count the loop leaves for a name: that of the last uploaded file of the name, and 0
  (the default of \<^verbatim>\<open>get\<close>) when no file has the name.
\<close>

definition sample_count :: "string \<Rightarrow> uploaded_file list \<Rightarrow> int" where
  "sample_count k fs = (if named k fs = [] then 0 else voxel_count (data (last (named k fs))))"

text \<open>
  Two roundings. The first stores every result exactly. The second stores 0 for a
  magnitude below \<^verbatim>\<open>2^-150\<close>, half the smallest positive single-precision number, as
  single precision does, and stores every other result exactly; on the numbers it is
  applied to below (\<^verbatim>\<open>2^-200\<close> and 0) it agrees with single precision.
\<close>

definition no_rounding :: rounding where
  "no_rounding x = x"

definition flush_tiny :: rounding where
  "flush_tiny x = (if \<bar>x\<bar> < 1 / 2 ^ 150 then 0 else x)"

text \<open>
  Three uploads that pass the gate, each with one positive voxel and the spacings
  \<^verbatim>\<open>2^-100\<close>, \<^verbatim>\<open>2^-100\<close> and 1, whose product is too small for single precision.
\<close>

definition tiny_spacing_uploads :: "uploaded_file list" where
  "tiny_spacing_uploads =
     [\<lparr>name = ''skeletal_muscle.nii.gz'', data = [1], zooms = [1 / 2 ^ 100, 1 / 2 ^ 100, 1]\<rparr>,
      \<lparr>name = ''subcutaneous_fat.nii.gz'', data = [1], zooms = [1 / 2 ^ 100, 1 / 2 ^ 100, 1]\<rparr>,
      \<lparr>name = ''torso_fat.nii.gz'', data = [1], zooms = [1 / 2 ^ 100, 1 / 2 ^ 100, 1]\<rparr>]"

definition one_voxel_each :: voxel_data where
  "one_voxel_each =
     [''skeletal_muscle.nii.gz'' \<mapsto> 1, ''subcutaneous_fat.nii.gz'' \<mapsto> 1,
      ''torso_fat.nii.gz'' \<mapsto> 1]"

text \<open>
  Uploads that the gate refuses: one file with an unknown name beside the muscle file,
  and the three names with the muscle file uploaded twice.
\<close>

definition misnamed_uploads :: "uploaded_file list" where
  "misnamed_uploads =
     [\<lparr>name = ''skeletal_muscle.nii.gz'', data = [1, 0, 2], zooms = [1, 1, 1]\<rparr>,
      \<lparr>name = ''liver.nii.gz'', data = [5], zooms = [2, 2, 2]\<rparr>]"

definition duplicate_uploads :: "uploaded_file list" where
  "duplicate_uploads =
     \<lparr>name = ''skeletal_muscle.nii.gz'', data = [7], zooms = [1, 1, 1]\<rparr> # three_uploads"

text \<open>A muscle file with two positive voxels out of four.\<close>

definition muscle_upload :: uploaded_file where
  "muscle_upload = \<lparr>name = ''skeletal_muscle.nii.gz'', data = [1, 0, 2, - 3], zooms = [1, 2, 3]\<rparr>"

section \<open>Properties\<close>

subsection \<open>The loop over the uploaded files\<close>

lemma and_then_Inr_iff:
  "and_then m k = Inr y \<longleftrightarrow> (\<exists>x. m = Inr x \<and> k x = Inr y)"
  by (cases m) (simp_all add: and_then_def)

lemma header_voxel_volume_eq:
  "header_voxel_volume fl zs =
     (if 3 \<le> length zs then Inr (fl (\<bar>fl (fl (zs ! 0 * zs ! 1) * zs ! 2)\<bar> / 1000)) else Inl IndexError)"
  by (simp add: header_voxel_volume_def get_zoom_def and_then_def)

lemma read_file_Inr:
  "read_file fl f s = Inr s' \<Longrightarrow>
     s' = (if name f \<in> set file_names
           then ((fst s)(name f \<mapsto> voxel_count (data f)),
                 Some (fl (\<bar>fl (fl (zooms f ! 0 * zooms f ! 1) * zooms f ! 2)\<bar> / 1000)))
           else s) \<and>
     (name f \<in> set file_names \<longrightarrow> 3 \<le> length (zooms f))"
  by (auto simp: read_file_def header_voxel_volume_eq and_then_def split: if_splits)

text \<open>After the loop, \<^verbatim>\<open>voxel_volume\<close> is the value of the last recognized file.\<close>

lemma read_files_volume:
  "read_files fl fs s = Inr s' \<Longrightarrow>
     snd s' = (if recognized fs = [] then snd s
               else Some (fl (\<bar>fl (fl (zooms (last (recognized fs)) ! 0 * zooms (last (recognized fs)) ! 1)
                                  * zooms (last (recognized fs)) ! 2)\<bar> / 1000)))"
proof (induction fs arbitrary: s)
  case Nil
  then show ?case by (simp add: recognized_def)
next
  case (Cons f fs)
  from Cons.prems obtain s1 where s1: "read_file fl f s = Inr s1" and rest: "read_files fl fs s1 = Inr s'"
    by (auto simp: and_then_Inr_iff)
  from Cons.IH [OF rest] read_file_Inr [OF s1] show ?case
    by (auto simp: recognized_def)
qed

text \<open>After the loop, the entry of a recognized name is the count of the last file of that name.\<close>

lemma read_files_count:
  "read_files fl fs s = Inr s' \<Longrightarrow>
     fst s' k = (if k \<in> set file_names \<and> named k fs \<noteq> []
                 then Some (voxel_count (data (last (named k fs)))) else fst s k)"
proof (induction fs arbitrary: s)
  case Nil
  then show ?case by (simp add: named_def)
next
  case (Cons f fs)
  from Cons.prems obtain s1 where s1: "read_file fl f s = Inr s1" and rest: "read_files fl fs s1 = Inr s'"
    by (auto simp: and_then_Inr_iff)
  from Cons.IH [OF rest] read_file_Inr [OF s1] show ?case
    by (auto simp: named_def)
qed

text \<open>The loop raises only when a recognized file has fewer than three spacings.\<close>

lemma read_files_succeeds:
  "(\<And>f. f \<in> set fs \<Longrightarrow> name f \<in> set file_names \<Longrightarrow> 3 \<le> length (zooms f)) \<Longrightarrow>
     \<exists>s'. read_files fl fs s = Inr s'"
proof (induction fs arbitrary: s)
  case Nil
  then show ?case by simp
next
  case (Cons f fs)
  have "\<exists>s1. read_file fl f s = Inr s1"
    using Cons.prems [of f] by (simp add: read_file_def header_voxel_volume_eq and_then_def)
  then obtain s1 where s1: "read_file fl f s = Inr s1" ..
  from Cons.IH [of s1] Cons.prems obtain s' where "read_files fl fs s1 = Inr s'" by auto
  with s1 show ?case by (simp add: and_then_def)
qed

lemma load_voxel_data_volume:
  assumes "load_voxel_data fl fs = Inr (vd, vv)"
  shows "vv = (if recognized fs = [] then None
               else Some (fl (\<bar>fl (fl (zooms (last (recognized fs)) ! 0 * zooms (last (recognized fs)) ! 1)
                                  * zooms (last (recognized fs)) ! 2)\<bar> / 1000)))"
  using read_files_volume [of fl fs "(Map.empty, None)" "(vd, vv)"] assms
  by (simp add: load_voxel_data_def)

lemma load_voxel_data_count:
  assumes "load_voxel_data fl fs = Inr (vd, vv)"
  shows "vd k = (if k \<in> set file_names \<and> named k fs \<noteq> []
                 then Some (voxel_count (data (last (named k fs)))) else None)"
  using read_files_count [of fl fs "(Map.empty, None)" "(vd, vv)" k] assms
  by (simp add: load_voxel_data_def)

lemma named_recognized:
  "k \<in> set file_names \<Longrightarrow> named k fs \<noteq> [] \<Longrightarrow> recognized fs \<noteq> []"
  by (auto simp: named_def recognized_def filter_empty_conv)

text \<open>A dictionary with an entry was filled by a file that also set \<^verbatim>\<open>voxel_volume\<close>.\<close>

lemma load_voxel_data_entry:
  assumes "load_voxel_data fl fs = Inr (vd, vv)" and "vd k = Some c"
  shows "0 \<le> c \<and> (\<exists>v. vv = Some v)"
proof -
  from load_voxel_data_count [OF assms(1), of k] assms(2)
  have k: "k \<in> set file_names" and n: "named k fs \<noteq> []"
    and c: "c = voxel_count (data (last (named k fs)))"
    by (auto split: if_splits)
  have "recognized fs \<noteq> []" using named_recognized [OF k n] .
  then have "\<exists>v. vv = Some v"
    using load_voxel_data_volume [OF assms(1)] by (cases vv) simp_all
  then show ?thesis using c by (simp add: voxel_count_def)
qed

lemma two_uploads_load:
  "load_voxel_data no_rounding two_uploads =
     Inr ([''skeletal_muscle.nii.gz'' \<mapsto> 2, ''subcutaneous_fat.nii.gz'' \<mapsto> 0], Some (3 / 500))"
  by (simp add: two_uploads_def load_voxel_data_def read_file_def file_names_def
      header_voxel_volume_eq and_then_def voxel_count_def no_rounding_def)

subsection \<open>Volumes\<close>

text \<open>
  C1. For each of the three recognized names, after the files are read: the volume is
  \<^verbatim>\<open>None\<close> when no uploaded file has the name; it is \<^verbatim>\<open>None\<close> when the file of
  that name has no positive voxel; and it is the count times \<^verbatim>\<open>voxel_volume\<close> when the
  count is positive (then \<^verbatim>\<open>voxel_volume\<close> has been set). \<open>tissue_volumes\<close> is these
  three volumes and does not raise.
\<close>

theorem volume_by_role:
  assumes "load_voxel_data fl fs = Inr (vd, vv)" and "k \<in> set file_names"
  shows "(named k fs = [] \<longrightarrow> volume_of (get_count vd k) vv = Inr None) \<and>
         (named k fs \<noteq> [] \<and> voxel_count (data (last (named k fs))) = 0 \<longrightarrow>
            volume_of (get_count vd k) vv = Inr None) \<and>
         (named k fs \<noteq> [] \<and> 0 < voxel_count (data (last (named k fs))) \<longrightarrow>
            (\<exists>v. vv = Some v \<and>
                 volume_of (get_count vd k) vv =
                   Inr (Some (of_int (voxel_count (data (last (named k fs)))) * v)))) \<and>
         (\<exists>vm vvis vsc.
            volume_of (get_count vd ''skeletal_muscle.nii.gz'') vv = Inr vm \<and>
            volume_of (get_count vd ''torso_fat.nii.gz'') vv = Inr vvis \<and>
            volume_of (get_count vd ''subcutaneous_fat.nii.gz'') vv = Inr vsc \<and>
            tissue_volumes vd vv = Inr (vm, vvis, vsc))"
proof -
  have c: "vd k = (if named k fs \<noteq> [] then Some (voxel_count (data (last (named k fs)))) else None)"
    using load_voxel_data_count [OF assms(1), of k] assms(2) by simp
  have v: "\<exists>v. vv = Some v" if "named k fs \<noteq> []"
    using c that load_voxel_data_entry [OF assms(1), of k] by simp
  have cases: "(named k fs = [] \<longrightarrow> volume_of (get_count vd k) vv = Inr None) \<and>
         (named k fs \<noteq> [] \<and> voxel_count (data (last (named k fs))) = 0 \<longrightarrow>
            volume_of (get_count vd k) vv = Inr None) \<and>
         (named k fs \<noteq> [] \<and> 0 < voxel_count (data (last (named k fs))) \<longrightarrow>
            (\<exists>v. vv = Some v \<and>
                 volume_of (get_count vd k) vv =
                   Inr (Some (of_int (voxel_count (data (last (named k fs)))) * v))))"
    using c v by (auto simp: get_count_def volume_of_def py_mul_count_def)
  have ok: "\<exists>x. volume_of (get_count vd j) vv = Inr x" for j
    using load_voxel_data_entry [OF assms(1), of j]
    by (cases "vd j") (auto simp: get_count_def volume_of_def py_mul_count_def)
  have "\<exists>vm vvis vsc.
            volume_of (get_count vd ''skeletal_muscle.nii.gz'') vv = Inr vm \<and>
            volume_of (get_count vd ''torso_fat.nii.gz'') vv = Inr vvis \<and>
            volume_of (get_count vd ''subcutaneous_fat.nii.gz'') vv = Inr vsc \<and>
            tissue_volumes vd vv = Inr (vm, vvis, vsc)"
    using ok [of "''skeletal_muscle.nii.gz''"] ok [of "''torso_fat.nii.gz''"]
      ok [of "''subcutaneous_fat.nii.gz''"]
    by (auto simp: tissue_volumes_def and_then_def)
  with cases show ?thesis by blast
qed

theorem volume_by_role_witness:
  "load_voxel_data no_rounding two_uploads =
     Inr ([''skeletal_muscle.nii.gz'' \<mapsto> 2, ''subcutaneous_fat.nii.gz'' \<mapsto> 0], Some (3 / 500)) \<and>
   volume_of (get_count [''skeletal_muscle.nii.gz'' \<mapsto> 2, ''subcutaneous_fat.nii.gz'' \<mapsto> 0]
                ''skeletal_muscle.nii.gz'') (Some (3 / 500)) = Inr (Some (2 * (3 / 500))) \<and>
   volume_of (get_count [''skeletal_muscle.nii.gz'' \<mapsto> 2, ''subcutaneous_fat.nii.gz'' \<mapsto> 0]
                ''subcutaneous_fat.nii.gz'') (Some (3 / 500)) = Inr None \<and>
   volume_of (get_count [''skeletal_muscle.nii.gz'' \<mapsto> 2, ''subcutaneous_fat.nii.gz'' \<mapsto> 0]
                ''torso_fat.nii.gz'') (Some (3 / 500)) = Inr None"
proof -
  note l = two_uploads_load
  have m: "''skeletal_muscle.nii.gz'' \<in> set file_names"
    and s: "''subcutaneous_fat.nii.gz'' \<in> set file_names"
    and t: "''torso_fat.nii.gz'' \<in> set file_names"
    by (simp_all add: file_names_def)
  from volume_by_role [OF l m] volume_by_role [OF l s] volume_by_role [OF l t] l
  show ?thesis by (simp add: get_count_def volume_of_def py_mul_count_def)
qed

subsection \<open>Masses\<close>

lemma mass_of_cases:
  "mass_of volume density =
     (case volume of None \<Rightarrow> None | Some x \<Rightarrow> if x = 0 then None else Some (x * density / 1000))"
  by (cases volume) (simp_all add: mass_of_def truthy_def)

lemma mass_of_Some_nonzero:
  "mass_of volume density = Some m \<Longrightarrow> density \<noteq> 0 \<Longrightarrow> m \<noteq> 0"
  by (cases volume) (auto simp: mass_of_cases split: if_splits)

lemma densities_nonzero: "masse_vol_graisse \<noteq> 0" "masse_vol_muscle \<noteq> 0"
  by (simp_all add: masse_vol_graisse_def masse_vol_muscle_def)

lemma result_rows_Some:
  assumes "mass_of vsc masse_vol_graisse = Some ms"
      and "mass_of vvis masse_vol_graisse = Some mv"
      and "mass_of vm masse_vol_muscle = Some mm"
  shows "result_rows vm vvis vsc =
           Inr (zip labels [vm, vsc, vvis, Some mm, Some ms, Some mv,
                            Some (ms / mv), Some ((ms + mv) / mm)])"
proof -
  have "mv \<noteq> 0" using mass_of_Some_nonzero [OF assms(2) densities_nonzero(1)] .
  moreover have "mm \<noteq> 0" using mass_of_Some_nonzero [OF assms(3) densities_nonzero(2)] .
  ultimately show ?thesis
    using assms by (simp add: result_rows_def py_truediv_def py_add_def and_then_def)
qed

lemma result_rows_None:
  assumes "mass_of vvis masse_vol_graisse = None \<or> mass_of vm masse_vol_muscle = None"
  shows "result_rows vm vvis vsc = Inl TypeError"
proof (cases "mass_of vvis masse_vol_graisse")
  case None
  then show ?thesis
    by (cases "mass_of vsc masse_vol_graisse")
       (simp_all add: result_rows_def py_truediv_def and_then_def)
next
  case (Some mv)
  with assms have m: "mass_of vm masse_vol_muscle = None" by simp
  have "mv \<noteq> 0" using mass_of_Some_nonzero [OF Some densities_nonzero(1)] .
  then show ?thesis using Some m
    by (cases "mass_of vsc masse_vol_graisse")
       (simp_all add: result_rows_def py_truediv_def py_add_def and_then_def)
qed

text \<open>The rows that are returned carry the labels in the order of the source.\<close>

lemma result_rows_Inr:
  assumes "result_rows vm vvis vsc = Inr r"
  shows "map fst r = labels \<and> length r = 8 \<and>
         map snd r = [vm, vsc, vvis, mass_of vm masse_vol_muscle, mass_of vsc masse_vol_graisse,
                      mass_of vvis masse_vol_graisse, snd (r ! 6), snd (r ! 7)]"
  using assms by (auto simp: result_rows_def and_then_Inr_iff labels_def)

text \<open>
  C2, as the code has it. The mass is \<^verbatim>\<open>volume * density / 1000\<close> when the volume is
  a number other than zero, and \<^verbatim>\<open>None\<close> when the volume is \<^verbatim>\<open>None\<close> or zero (the
  guard is the truth value of the volume). The muscle density is 1.06 and the fat
  density 0.9196; in the returned rows the muscle mass uses the first and both fat
  masses use the second.
\<close>

theorem mass_by_role:
  "mass_of volume density =
     (case volume of None \<Rightarrow> None | Some x \<Rightarrow> if x = 0 then None else Some (x * density / 1000)) \<and>
   masse_vol_muscle = 1.06 \<and> masse_vol_graisse = 0.9196 \<and>
   (result_rows vm vvis vsc = Inr r \<longrightarrow>
      snd (r ! 3) = mass_of vm masse_vol_muscle \<and>
      snd (r ! 4) = mass_of vsc masse_vol_graisse \<and>
      snd (r ! 5) = mass_of vvis masse_vol_graisse)"
proof -
  have "snd (r ! 3) = mass_of vm masse_vol_muscle \<and>
        snd (r ! 4) = mass_of vsc masse_vol_graisse \<and>
        snd (r ! 5) = mass_of vvis masse_vol_graisse" if "result_rows vm vvis vsc = Inr r"
    using that by (auto simp: result_rows_def and_then_Inr_iff labels_def)
  then show ?thesis
    by (simp add: mass_of_cases masse_vol_muscle_def masse_vol_graisse_def)
qed

theorem mass_by_role_witness:
  "result_rows (Some 1000) (Some 200) (Some 500) =
     Inr (zip labels [Some 1000, Some 500, Some 200, Some 1.06, Some 0.4598, Some 0.18392,
                      Some 2.5, Some (16093 / 26500)]) \<and>
   mass_of (Some 1000) masse_vol_muscle = Some 1.06 \<and>
   mass_of (Some 500) masse_vol_graisse = Some 0.4598 \<and>
   mass_of (Some 200) masse_vol_graisse = Some 0.18392 \<and>
   mass_of None masse_vol_graisse = None"
proof -
  have r: "result_rows (Some 1000) (Some 200) (Some 500) =
     Inr (zip labels [Some 1000, Some 500, Some 200, Some 1.06, Some 0.4598, Some 0.18392,
                      Some 2.5, Some (16093 / 26500)])"
    by (simp add: result_rows_def mass_of_cases masse_vol_graisse_def masse_vol_muscle_def
        py_truediv_def py_add_def and_then_def)
  have "snd (zip labels [Some 1000, Some 500, Some 200, Some 1.06, Some 0.4598, Some 0.18392,
                      Some 2.5, Some (16093 / 26500 :: real)] ! 3) = mass_of (Some 1000) masse_vol_muscle \<and>
        snd (zip labels [Some 1000, Some 500, Some 200, Some 1.06, Some 0.4598, Some 0.18392,
                      Some 2.5, Some (16093 / 26500 :: real)] ! 4) = mass_of (Some 500) masse_vol_graisse \<and>
        snd (zip labels [Some 1000, Some 500, Some 200, Some 1.06, Some 0.4598, Some 0.18392,
                      Some 2.5, Some (16093 / 26500 :: real)] ! 5) = mass_of (Some 200) masse_vol_graisse"
    using mass_by_role [of "Some 1000" masse_vol_muscle "Some 1000" "Some 200" "Some 500"] r
    by blast
  moreover have "mass_of None masse_vol_graisse = None"
    using mass_by_role [of None masse_vol_graisse] by simp
  ultimately show ?thesis using r by (simp add: labels_def)
qed

lemma tiny_spacing_uploads_load:
  "load_voxel_data flush_tiny tiny_spacing_uploads = Inr (one_voxel_each, Some 0)"
  by (simp add: tiny_spacing_uploads_def one_voxel_each_def load_voxel_data_def read_file_def
      file_names_def header_voxel_volume_eq and_then_def voxel_count_def flush_tiny_def)

text \<open>
  C2 as stated fails where the volume is \<^verbatim>\<open>0.0\<close>, a number and not \<^verbatim>\<open>None\<close>: its
  mass is \<^verbatim>\<open>None\<close>, not \<^verbatim>\<open>0.0 * 1.06 / 1000\<close>. The volume is 0.0 when the count is
  positive and \<^verbatim>\<open>voxel_volume\<close> is 0.0, which is what the loop leaves for the spacings
  \<^verbatim>\<open>2^-100\<close>, \<^verbatim>\<open>2^-100\<close> and 1, whose product is stored as 0.0.
\<close>

theorem mass_of_zero_volume_counterexample:
  "load_voxel_data flush_tiny tiny_spacing_uploads = Inr (one_voxel_each, Some 0) \<and>
   volume_of (get_count one_voxel_each ''skeletal_muscle.nii.gz'') (Some 0) = Inr (Some 0) \<and>
   (Some 0 :: py_number) \<noteq> None \<and>
   mass_of (Some 0) masse_vol_muscle = None \<and>
   mass_of (Some 0) masse_vol_muscle \<noteq> Some (0 * masse_vol_muscle / 1000)"
  using tiny_spacing_uploads_load
  by (simp add: one_voxel_each_def get_count_def volume_of_def py_mul_count_def mass_of_cases)

subsection \<open>Ratios\<close>

lemma tissue_volumes_Inl: "tissue_volumes vd vv = Inl e \<Longrightarrow> e = TypeError"
  by (cases vv)
     (auto simp: tissue_volumes_def volume_of_def py_mul_count_def and_then_def split: if_splits)

lemma tissue_volumes_Inr:
  "tissue_volumes vd vv = Inr (vm, vvis, vsc) \<Longrightarrow>
     volume_of (get_count vd ''skeletal_muscle.nii.gz'') vv = Inr vm \<and>
     volume_of (get_count vd ''torso_fat.nii.gz'') vv = Inr vvis \<and>
     volume_of (get_count vd ''subcutaneous_fat.nii.gz'') vv = Inr vsc"
  by (auto simp: tissue_volumes_def and_then_Inr_iff)

lemma volume_of_zero_count: "volume_of 0 vv = Inr None"
  by (simp add: volume_of_def)

lemma compute_metrics_Inr:
  "tissue_volumes vd vv = Inr (vm, vvis, vsc) \<Longrightarrow> compute_metrics vd vv = result_rows vm vvis vsc"
  by (simp add: compute_metrics_def and_then_def)

lemma analyze_voxel_data_loaded:
  "load_voxel_data fl fs = Inr (vd, vv) \<Longrightarrow> analyze_voxel_data fl fs = compute_metrics vd vv"
  by (simp add: analyze_voxel_data_def and_then_def)

text \<open>
  C3. When the three masses are numbers, the result is returned, its seventh value is
  the subcutaneous mass over the visceral mass and its eighth the sum of the two fat
  masses over the muscle mass. For the fixture of the specification (counts 1000000,
  500000 and 200000, voxel volume 0.001) the eight values are 1000, 500, 200, 1.06,
  0.4598, 0.18392, 2.5 and 16093/26500, which is 0.6073 to four decimal places.
\<close>

theorem ratios_of_masses:
  "(tissue_volumes vd vv = Inr (vm, vvis, vsc) \<and>
    mass_of vsc masse_vol_graisse = Some ms \<and>
    mass_of vvis masse_vol_graisse = Some mv \<and>
    mass_of vm masse_vol_muscle = Some mm \<longrightarrow>
      mv \<noteq> 0 \<and> mm \<noteq> 0 \<and>
      compute_metrics vd vv =
        Inr (zip labels [vm, vsc, vvis, Some mm, Some ms, Some mv,
                         Some (ms / mv), Some ((ms + mv) / mm)])) \<and>
   compute_metrics fixture_counts (Some 0.001) =
     Inr (zip labels [Some 1000, Some 500, Some 200, Some 1.06, Some 0.4598, Some 0.18392,
                      Some 2.5, Some (16093 / 26500)]) \<and>
   \<bar>16093 / 26500 - 0.6073\<bar> < (0.00005 :: real)"
proof -
  have general: "mv \<noteq> 0 \<and> mm \<noteq> 0 \<and>
      compute_metrics vd vv =
        Inr (zip labels [vm, vsc, vvis, Some mm, Some ms, Some mv,
                         Some (ms / mv), Some ((ms + mv) / mm)])"
    if t: "tissue_volumes vd vv = Inr (vm, vvis, vsc)"
      and s: "mass_of vsc masse_vol_graisse = Some ms"
      and v: "mass_of vvis masse_vol_graisse = Some mv"
      and m: "mass_of vm masse_vol_muscle = Some mm"
    using compute_metrics_Inr [OF t] result_rows_Some [OF s v m]
      mass_of_Some_nonzero [OF v densities_nonzero(1)]
      mass_of_Some_nonzero [OF m densities_nonzero(2)]
    by simp
  have fixture: "compute_metrics fixture_counts (Some 0.001) =
     Inr (zip labels [Some 1000, Some 500, Some 200, Some 1.06, Some 0.4598, Some 0.18392,
                      Some 2.5, Some (16093 / 26500)])"
    by (simp add: compute_metrics_def tissue_volumes_def fixture_counts_def get_count_def
        volume_of_def py_mul_count_def and_then_def result_rows_def mass_of_cases
        masse_vol_graisse_def masse_vol_muscle_def py_truediv_def py_add_def)
  have "\<bar>16093 / 26500 - 0.6073\<bar> < (0.00005 :: real)" by simp
  with general fixture show ?thesis by blast
qed

theorem ratios_of_masses_witness:
  "tissue_volumes small_counts (Some (1 / 2)) = Inr (Some 1, Some 2, Some (3 / 2)) \<and>
   mass_of (Some (3 / 2)) masse_vol_graisse = Some (13794 / 10000000) \<and>
   mass_of (Some 2) masse_vol_graisse = Some (18392 / 10000000) \<and>
   mass_of (Some 1) masse_vol_muscle = Some (106 / 100000) \<and>
   compute_metrics small_counts (Some (1 / 2)) =
     Inr (zip labels [Some 1, Some (3 / 2), Some 2, Some (106 / 100000), Some (13794 / 10000000),
                      Some (18392 / 10000000), Some (3 / 4), Some (16093 / 5300)])"
proof -
  have t: "tissue_volumes small_counts (Some (1 / 2)) = Inr (Some 1, Some 2, Some (3 / 2))"
    by (simp add: tissue_volumes_def small_counts_def get_count_def volume_of_def
        py_mul_count_def and_then_def)
  have s: "mass_of (Some (3 / 2)) masse_vol_graisse = Some (13794 / 10000000)"
    and v: "mass_of (Some 2) masse_vol_graisse = Some (18392 / 10000000)"
    and m: "mass_of (Some 1) masse_vol_muscle = Some (106 / 100000)"
    by (simp_all add: mass_of_cases masse_vol_graisse_def masse_vol_muscle_def)
  have "compute_metrics small_counts (Some (1 / 2)) =
     Inr (zip labels [Some 1, Some (3 / 2), Some 2, Some (106 / 100000), Some (13794 / 10000000),
                      Some (18392 / 10000000), Some ((13794 / 10000000) / (18392 / 10000000)),
                      Some ((13794 / 10000000 + 18392 / 10000000) / (106 / 100000))])"
    using ratios_of_masses [of small_counts "Some (1 / 2)" "Some 1" "Some 2" "Some (3 / 2)"
        "13794 / 10000000" "18392 / 10000000" "106 / 100000"] t s v m
    by blast
  then show ?thesis using t s v m by simp
qed

text \<open>
  C5. After the files are read, if the visceral-fat count or the muscle count is zero
  (the sample absent, or present with no positive voxel), or more generally if the
  visceral-fat mass or the muscle mass is \<^verbatim>\<open>None\<close>, the function raises
  \<^verbatim>\<open>TypeError\<close>: it returns no rows at all.
\<close>

theorem none_denominator_raises:
  assumes "load_voxel_data fl fs = Inr (vd, vv)"
  shows "(get_count vd ''torso_fat.nii.gz'' = 0 \<or> get_count vd ''skeletal_muscle.nii.gz'' = 0 \<longrightarrow>
            analyze_voxel_data fl fs = Inl TypeError) \<and>
         (tissue_volumes vd vv = Inr (vm, vvis, vsc) \<and>
          (mass_of vvis masse_vol_graisse = None \<or> mass_of vm masse_vol_muscle = None) \<longrightarrow>
            analyze_voxel_data fl fs = Inl TypeError)"
proof -
  have masses: "compute_metrics vd vv = Inl TypeError"
    if "tissue_volumes vd vv = Inr (a, b, c)"
      and "mass_of b masse_vol_graisse = None \<or> mass_of a masse_vol_muscle = None" for a b c
    using compute_metrics_Inr [OF that(1)] result_rows_None [OF that(2)] by simp
  have counts: "compute_metrics vd vv = Inl TypeError"
    if z: "get_count vd ''torso_fat.nii.gz'' = 0 \<or> get_count vd ''skeletal_muscle.nii.gz'' = 0"
  proof (cases "tissue_volumes vd vv")
    case (Inl e)
    then show ?thesis using tissue_volumes_Inl [OF Inl]
      by (simp add: compute_metrics_def and_then_def)
  next
    case (Inr t)
    obtain a b c where t: "t = (a, b, c)" by (cases t)
    from tissue_volumes_Inr [OF Inr [unfolded t]] z have "b = None \<or> a = None"
      by (auto simp: volume_of_zero_count)
    then have "mass_of b masse_vol_graisse = None \<or> mass_of a masse_vol_muscle = None"
      by (auto simp: mass_of_cases)
    then show ?thesis using masses Inr t by simp
  qed
  show ?thesis
    using masses counts analyze_voxel_data_loaded [OF assms] by simp
qed

lemma empty_torso_uploads_load:
  "load_voxel_data no_rounding empty_torso_uploads =
     Inr ([''skeletal_muscle.nii.gz'' \<mapsto> 2, ''subcutaneous_fat.nii.gz'' \<mapsto> 1,
           ''torso_fat.nii.gz'' \<mapsto> 0], Some (3 / 500))"
  by (simp add: empty_torso_uploads_def load_voxel_data_def read_file_def file_names_def
      header_voxel_volume_eq and_then_def voxel_count_def no_rounding_def)

theorem none_denominator_raises_witness:
  "load_voxel_data no_rounding two_uploads =
     Inr ([''skeletal_muscle.nii.gz'' \<mapsto> 2, ''subcutaneous_fat.nii.gz'' \<mapsto> 0], Some (3 / 500)) \<and>
   get_count [''skeletal_muscle.nii.gz'' \<mapsto> 2, ''subcutaneous_fat.nii.gz'' \<mapsto> 0]
     ''torso_fat.nii.gz'' = 0 \<and>
   analyze_voxel_data no_rounding two_uploads = Inl TypeError \<and>
   load_voxel_data no_rounding empty_torso_uploads =
     Inr ([''skeletal_muscle.nii.gz'' \<mapsto> 2, ''subcutaneous_fat.nii.gz'' \<mapsto> 1,
           ''torso_fat.nii.gz'' \<mapsto> 0], Some (3 / 500)) \<and>
   tissue_volumes [''skeletal_muscle.nii.gz'' \<mapsto> 2, ''subcutaneous_fat.nii.gz'' \<mapsto> 1,
           ''torso_fat.nii.gz'' \<mapsto> 0] (Some (3 / 500)) =
     Inr (Some (2 * (3 / 500)), None, Some (3 / 500)) \<and>
   mass_of None masse_vol_graisse = None \<and>
   analyze_voxel_data no_rounding empty_torso_uploads = Inl TypeError"
proof -
  have g: "get_count [''skeletal_muscle.nii.gz'' \<mapsto> 2, ''subcutaneous_fat.nii.gz'' \<mapsto> 0]
     ''torso_fat.nii.gz'' = 0"
    by (simp add: get_count_def)
  have t: "tissue_volumes [''skeletal_muscle.nii.gz'' \<mapsto> 2, ''subcutaneous_fat.nii.gz'' \<mapsto> 1,
           ''torso_fat.nii.gz'' \<mapsto> 0] (Some (3 / 500)) =
     Inr (Some (2 * (3 / 500)), None, Some (3 / 500))"
    by (simp add: tissue_volumes_def get_count_def volume_of_def py_mul_count_def and_then_def)
  have m: "mass_of None masse_vol_graisse = None"
    by (simp add: mass_of_cases)
  have "analyze_voxel_data no_rounding two_uploads = Inl TypeError"
    using none_denominator_raises [OF two_uploads_load] g by blast
  moreover have "analyze_voxel_data no_rounding empty_torso_uploads = Inl TypeError"
    using none_denominator_raises [OF empty_torso_uploads_load, of "Some (2 * (3 / 500))" None "Some (3 / 500)"]
      t m by blast
  ultimately show ?thesis
    using two_uploads_load empty_torso_uploads_load g t m by simp
qed

lemma compute_metrics_zero_voxel_volume: "compute_metrics vd (Some 0) = Inl TypeError"
proof -
  have "tissue_volumes vd (Some 0) =
          Inr (if get_count vd ''skeletal_muscle.nii.gz'' \<noteq> 0 then Some 0 else None,
               if get_count vd ''torso_fat.nii.gz'' \<noteq> 0 then Some 0 else None,
               if get_count vd ''subcutaneous_fat.nii.gz'' \<noteq> 0 then Some 0 else None)"
    by (simp add: tissue_volumes_def volume_of_def py_mul_count_def and_then_def)
  moreover have "mass_of (if c then Some 0 else None) masse_vol_graisse = None" for c
    by (simp add: mass_of_cases)
  ultimately show ?thesis
    using result_rows_None by (simp add: compute_metrics_def and_then_def)
qed

text \<open>
  C6, as the code has it. With a zero voxel volume no mass is present and zero: every
  volume is 0.0 (positive count) or \<^verbatim>\<open>None\<close> (count 0), the mass of either is
  \<^verbatim>\<open>None\<close> under the guard on the truth value of the volume, and the outcome of the
  metrics computation is not a division by zero.
\<close>

theorem zero_voxel_volume_mass_absent:
  "volume_of c (Some 0) = Inr (if c \<noteq> 0 then Some 0 else None) \<and>
   mass_of (Some 0) density = None \<and>
   (\<exists>vm vvis vsc.
      tissue_volumes vd (Some 0) = Inr (vm, vvis, vsc) \<and>
      mass_of vm masse_vol_muscle = None \<and>
      mass_of vvis masse_vol_graisse = None \<and>
      mass_of vsc masse_vol_graisse = None) \<and>
   compute_metrics vd (Some 0) \<noteq> Inl ZeroDivisionError"
proof -
  have t: "tissue_volumes vd (Some 0) =
          Inr (if get_count vd ''skeletal_muscle.nii.gz'' \<noteq> 0 then Some 0 else None,
               if get_count vd ''torso_fat.nii.gz'' \<noteq> 0 then Some 0 else None,
               if get_count vd ''subcutaneous_fat.nii.gz'' \<noteq> 0 then Some 0 else None)"
    by (simp add: tissue_volumes_def volume_of_def py_mul_count_def and_then_def)
  have m: "mass_of (if b then Some 0 else None) d = None" for b d
    by (simp add: mass_of_cases)
  have "\<exists>vm vvis vsc.
      tissue_volumes vd (Some 0) = Inr (vm, vvis, vsc) \<and>
      mass_of vm masse_vol_muscle = None \<and>
      mass_of vvis masse_vol_graisse = None \<and>
      mass_of vsc masse_vol_graisse = None"
    unfolding t using m by blast
  moreover have "compute_metrics vd (Some 0) \<noteq> Inl ZeroDivisionError"
    by (simp add: compute_metrics_zero_voxel_volume)
  ultimately show ?thesis
    by (simp add: volume_of_def py_mul_count_def mass_of_cases)
qed

text \<open>
  C6 as stated fails at the input it names. Three files with one positive voxel each
  and a product of spacings that is stored as 0.0 have a positive count and a zero voxel
  volume: the three volumes are 0.0, the denominator masses are \<^verbatim>\<open>None\<close> and not 0,
  and the outcome is not a division by zero.
\<close>

theorem zero_voxel_volume_counterexample:
  "load_voxel_data flush_tiny tiny_spacing_uploads = Inr (one_voxel_each, Some 0) \<and>
   tissue_volumes one_voxel_each (Some 0) = Inr (Some 0, Some 0, Some 0) \<and>
   mass_of (Some 0) masse_vol_graisse = None \<and>
   mass_of (Some 0) masse_vol_muscle = None \<and>
   mass_of (Some 0) masse_vol_graisse \<noteq> Some 0 \<and>
   mass_of (Some 0) masse_vol_muscle \<noteq> Some 0 \<and>
   compute_metrics one_voxel_each (Some 0) \<noteq> Inl ZeroDivisionError"
  using tiny_spacing_uploads_load compute_metrics_zero_voxel_volume [of one_voxel_each]
  by (simp add: tissue_volumes_def one_voxel_each_def get_count_def volume_of_def
      py_mul_count_def and_then_def mass_of_cases)

subsection \<open>The whole function\<close>

lemma three_uploads_load:
  "load_voxel_data no_rounding three_uploads =
     Inr ([''skeletal_muscle.nii.gz'' \<mapsto> 2, ''subcutaneous_fat.nii.gz'' \<mapsto> 1,
           ''torso_fat.nii.gz'' \<mapsto> 3], Some (1 / 100))"
  by (simp add: three_uploads_def load_voxel_data_def read_file_def file_names_def
      header_voxel_volume_eq and_then_def voxel_count_def no_rounding_def)

text \<open>
  C10. After the files are read, if each of the three names has a positive count and the
  voxel volume is positive, the function returns: eight rows with the labels in order,
  every value a number, and both denominators (the visceral-fat mass and the muscle mass)
  different from zero.
\<close>

theorem all_present_succeeds:
  assumes "load_voxel_data fl fs = Inr (vd, Some v)" and "0 < v"
      and "vd ''skeletal_muscle.nii.gz'' = Some cm" and "0 < cm"
      and "vd ''subcutaneous_fat.nii.gz'' = Some cs" and "0 < cs"
      and "vd ''torso_fat.nii.gz'' = Some cv" and "0 < cv"
  shows "analyze_voxel_data fl fs =
           Inr (zip labels
             [Some (of_int cm * v), Some (of_int cs * v), Some (of_int cv * v),
              Some (of_int cm * v * masse_vol_muscle / 1000),
              Some (of_int cs * v * masse_vol_graisse / 1000),
              Some (of_int cv * v * masse_vol_graisse / 1000),
              Some ((of_int cs * v * masse_vol_graisse / 1000) / (of_int cv * v * masse_vol_graisse / 1000)),
              Some ((of_int cs * v * masse_vol_graisse / 1000 + of_int cv * v * masse_vol_graisse / 1000)
                      / (of_int cm * v * masse_vol_muscle / 1000))]) \<and>
         of_int cv * v * masse_vol_graisse / 1000 \<noteq> 0 \<and>
         of_int cm * v * masse_vol_muscle / 1000 \<noteq> 0 \<and>
         (\<exists>r. analyze_voxel_data fl fs = Inr r \<and> length r = 8 \<and> map fst r = labels \<and>
              list_all (\<lambda>p. snd p \<noteq> None) r)"
proof -
  have t: "tissue_volumes vd (Some v) =
             Inr (Some (of_int cm * v), Some (of_int cv * v), Some (of_int cs * v))"
    using assms by (simp add: tissue_volumes_def get_count_def volume_of_def py_mul_count_def
        and_then_def)
  have s: "mass_of (Some (of_int cs * v)) masse_vol_graisse = Some (of_int cs * v * masse_vol_graisse / 1000)"
    and vi: "mass_of (Some (of_int cv * v)) masse_vol_graisse = Some (of_int cv * v * masse_vol_graisse / 1000)"
    and m: "mass_of (Some (of_int cm * v)) masse_vol_muscle = Some (of_int cm * v * masse_vol_muscle / 1000)"
    using assms by (simp_all add: mass_of_cases)
  have r: "analyze_voxel_data fl fs =
           Inr (zip labels
             [Some (of_int cm * v), Some (of_int cs * v), Some (of_int cv * v),
              Some (of_int cm * v * masse_vol_muscle / 1000),
              Some (of_int cs * v * masse_vol_graisse / 1000),
              Some (of_int cv * v * masse_vol_graisse / 1000),
              Some ((of_int cs * v * masse_vol_graisse / 1000) / (of_int cv * v * masse_vol_graisse / 1000)),
              Some ((of_int cs * v * masse_vol_graisse / 1000 + of_int cv * v * masse_vol_graisse / 1000)
                      / (of_int cm * v * masse_vol_muscle / 1000))])"
    using analyze_voxel_data_loaded [OF assms(1)] compute_metrics_Inr [OF t]
      result_rows_Some [OF s vi m]
    by simp
  have d: "of_int cv * v * masse_vol_graisse / 1000 \<noteq> 0" "of_int cm * v * masse_vol_muscle / 1000 \<noteq> 0"
    using mass_of_Some_nonzero [OF vi densities_nonzero(1)]
      mass_of_Some_nonzero [OF m densities_nonzero(2)]
    by simp_all
  have "\<exists>r. analyze_voxel_data fl fs = Inr r \<and> length r = 8 \<and> map fst r = labels \<and>
              list_all (\<lambda>p. snd p \<noteq> None) r"
    unfolding r by (simp add: labels_def del: not_None_eq)
  with r d show ?thesis by blast
qed

theorem all_present_succeeds_witness:
  "load_voxel_data no_rounding three_uploads =
     Inr ([''skeletal_muscle.nii.gz'' \<mapsto> 2, ''subcutaneous_fat.nii.gz'' \<mapsto> 1,
           ''torso_fat.nii.gz'' \<mapsto> 3], Some (1 / 100)) \<and>
   analyze_voxel_data no_rounding three_uploads =
     Inr (zip labels
       [Some (2 / 100), Some (1 / 100), Some (3 / 100),
        Some (212 / 10000000), Some (9196 / 1000000000), Some (27588 / 1000000000),
        Some (1 / 3), Some (36784 / 21200)])"
proof -
  have "analyze_voxel_data no_rounding three_uploads =
           Inr (zip labels
             [Some (of_int 2 * (1 / 100)), Some (of_int 1 * (1 / 100)), Some (of_int 3 * (1 / 100)),
              Some (of_int 2 * (1 / 100) * masse_vol_muscle / 1000),
              Some (of_int 1 * (1 / 100) * masse_vol_graisse / 1000),
              Some (of_int 3 * (1 / 100) * masse_vol_graisse / 1000),
              Some ((of_int 1 * (1 / 100) * masse_vol_graisse / 1000) / (of_int 3 * (1 / 100) * masse_vol_graisse / 1000)),
              Some ((of_int 1 * (1 / 100) * masse_vol_graisse / 1000 + of_int 3 * (1 / 100) * masse_vol_graisse / 1000)
                      / (of_int 2 * (1 / 100) * masse_vol_muscle / 1000))])"
    using all_present_succeeds [OF three_uploads_load, of 2 1 3] by simp
  then show ?thesis
    using three_uploads_load by (simp add: masse_vol_graisse_def masse_vol_muscle_def)
qed

text \<open>
  C4. The claim promises the eight rows for every input. Three uploads that pass the gate,
  with a visceral-fat mask that has no positive voxel, get no rows: the function raises
  \<^verbatim>\<open>TypeError\<close> while it builds the first ratio.
\<close>

theorem analyze_empty_mask_raises:
  "analyze_voxel_data fl empty_torso_uploads = Inl TypeError"
  by (simp add: analyze_voxel_data_def empty_torso_uploads_def load_voxel_data_def read_file_def
      file_names_def header_voxel_volume_eq voxel_count_def and_then_def compute_metrics_def
      tissue_volumes_def get_count_def volume_of_def py_mul_count_def result_rows_def
      mass_of_cases py_truediv_def masse_vol_graisse_def)

text \<open>Whenever rows are returned, they are the eight rows in the order of the source.\<close>

lemma analyze_voxel_data_rows:
  assumes "analyze_voxel_data fl fs = Inr r"
  shows "map fst r = labels \<and> length r = 8"
proof -
  from assms obtain vd vv where "compute_metrics vd vv = Inr r"
    by (auto simp: analyze_voxel_data_def and_then_Inr_iff)
  then obtain vm vvis vsc where "result_rows vm vvis vsc = Inr r"
    by (auto simp: compute_metrics_def and_then_Inr_iff)
  then show ?thesis using result_rows_Inr by blast
qed

subsection \<open>One voxel volume for the three tissues\<close>

lemma load_voxel_data_sample_count:
  assumes "load_voxel_data fl fs = Inr (vd, vv)" and "k \<in> set file_names"
  shows "get_count vd k = sample_count k fs"
  using load_voxel_data_count [OF assms(1), of k] assms(2)
  by (simp add: get_count_def sample_count_def)

lemma result_rows_Inr_volumes:
  assumes "result_rows vm vvis vsc = Inr r"
  shows "vm \<noteq> None \<and> vvis \<noteq> None \<and> vsc \<noteq> None"
proof -
  have "\<not> (mass_of vvis masse_vol_graisse = None \<or> mass_of vm masse_vol_muscle = None)"
  proof
    assume "mass_of vvis masse_vol_graisse = None \<or> mass_of vm masse_vol_muscle = None"
    from result_rows_None [OF this] assms show False by simp
  qed
  moreover have "mass_of vsc masse_vol_graisse \<noteq> None"
  proof
    assume "mass_of vsc masse_vol_graisse = None"
    then have "result_rows vm vvis vsc = Inl TypeError"
      by (simp add: result_rows_def py_truediv_def and_then_def)
    with assms show False by simp
  qed
  ultimately show ?thesis
    by (cases vm; cases vvis; cases vsc) (simp_all add: mass_of_cases)
qed

text \<open>
  C8. If every recognized file has its three spacings and at least one file is recognized,
  the loop ends without an exception, whether or not the headers agree on the voxel
  volume, and leaves in \<^verbatim>\<open>voxel_volume\<close> the value \<open>v\<close> that line 54 computes from the
  header of the last recognized file. The function then builds its rows from three volumes
  that are each \<^verbatim>\<open>None\<close> or the count of the tissue times that one \<open>v\<close>; in the rows it
  returns, the three volumes are the three counts times \<open>v\<close>.
\<close>

theorem last_voxel_volume_used:
  assumes "\<forall>f\<in>set fs. name f \<in> set file_names \<longrightarrow> 3 \<le> length (zooms f)"
      and "recognized fs \<noteq> []"
  shows "\<exists>v. header_voxel_volume fl (zooms (last (recognized fs))) = Inr v \<and>
           (\<exists>vd. load_voxel_data fl fs = Inr (vd, Some v)) \<and>
           analyze_voxel_data fl fs =
             result_rows
               (if sample_count ''skeletal_muscle.nii.gz'' fs \<noteq> 0
                then Some (of_int (sample_count ''skeletal_muscle.nii.gz'' fs) * v) else None)
               (if sample_count ''torso_fat.nii.gz'' fs \<noteq> 0
                then Some (of_int (sample_count ''torso_fat.nii.gz'' fs) * v) else None)
               (if sample_count ''subcutaneous_fat.nii.gz'' fs \<noteq> 0
                then Some (of_int (sample_count ''subcutaneous_fat.nii.gz'' fs) * v) else None) \<and>
           (\<forall>r. analyze_voxel_data fl fs = Inr r \<longrightarrow>
                map snd (take 3 r) =
                  [Some (of_int (sample_count ''skeletal_muscle.nii.gz'' fs) * v),
                   Some (of_int (sample_count ''subcutaneous_fat.nii.gz'' fs) * v),
                   Some (of_int (sample_count ''torso_fat.nii.gz'' fs) * v)])"
proof -
  let ?z = "zooms (last (recognized fs))"
  let ?v = "fl (\<bar>fl (fl (?z ! 0 * ?z ! 1) * ?z ! 2)\<bar> / 1000)"
  let ?vol = "\<lambda>k. if sample_count k fs \<noteq> 0 then Some (of_int (sample_count k fs) * ?v) else None"
  from read_files_succeeds [of fs fl "(Map.empty, None)"] assms(1)
  obtain s' where "read_files fl fs (Map.empty, None) = Inr s'" by blast
  then obtain vd vv where l: "load_voxel_data fl fs = Inr (vd, vv)"
    by (cases s') (simp add: load_voxel_data_def)
  have vv: "vv = Some ?v"
    using load_voxel_data_volume [OF l] assms(2) by simp
  have "last (recognized fs) \<in> set (recognized fs)"
    using assms(2) by simp
  then have "last (recognized fs) \<in> set fs \<and> name (last (recognized fs)) \<in> set file_names"
    by (simp add: recognized_def)
  then have "3 \<le> length ?z"
    using assms(1) by blast
  then have h: "header_voxel_volume fl ?z = Inr ?v"
    by (simp add: header_voxel_volume_eq)
  have names: "''skeletal_muscle.nii.gz'' \<in> set file_names" "''torso_fat.nii.gz'' \<in> set file_names"
      "''subcutaneous_fat.nii.gz'' \<in> set file_names"
    by (simp_all add: file_names_def)
  have t: "tissue_volumes vd (Some ?v) =
             Inr (?vol ''skeletal_muscle.nii.gz'', ?vol ''torso_fat.nii.gz'',
                  ?vol ''subcutaneous_fat.nii.gz'')"
    using names [THEN load_voxel_data_sample_count [OF l]]
    by (simp add: tissue_volumes_def volume_of_def py_mul_count_def and_then_def)
  have a: "analyze_voxel_data fl fs =
             result_rows (?vol ''skeletal_muscle.nii.gz'') (?vol ''torso_fat.nii.gz'')
               (?vol ''subcutaneous_fat.nii.gz'')"
    using analyze_voxel_data_loaded [OF l] compute_metrics_Inr [OF t [folded vv]] by simp
  have rows: "map snd (take 3 r) =
                  [Some (of_int (sample_count ''skeletal_muscle.nii.gz'' fs) * ?v),
                   Some (of_int (sample_count ''subcutaneous_fat.nii.gz'' fs) * ?v),
                   Some (of_int (sample_count ''torso_fat.nii.gz'' fs) * ?v)]"
    if "analyze_voxel_data fl fs = Inr r" for r
  proof -
    from that a have r: "result_rows (?vol ''skeletal_muscle.nii.gz'') (?vol ''torso_fat.nii.gz'')
               (?vol ''subcutaneous_fat.nii.gz'') = Inr r"
      by simp
    from result_rows_Inr_volumes [OF r]
    have nz: "sample_count ''skeletal_muscle.nii.gz'' fs \<noteq> 0"
        "sample_count ''torso_fat.nii.gz'' fs \<noteq> 0"
        "sample_count ''subcutaneous_fat.nii.gz'' fs \<noteq> 0"
      by (auto split: if_splits)
    note ms = result_rows_Inr [OF r, THEN conjunct2, THEN conjunct2]
    have "map snd (take 3 r) = take 3 (map snd r)"
      by (simp add: take_map)
    also have "\<dots> = [?vol ''skeletal_muscle.nii.gz'', ?vol ''subcutaneous_fat.nii.gz'',
                      ?vol ''torso_fat.nii.gz'']"
      by (subst ms) simp
    finally show ?thesis using nz by simp
  qed
  from h l vv a rows show ?thesis by blast
qed

lemma three_uploads_recognized: "recognized three_uploads = three_uploads"
  by (simp add: recognized_def three_uploads_def file_names_def)

theorem last_voxel_volume_used_witness:
  "header_voxel_volume no_rounding (zooms (three_uploads ! 0)) = Inr (1 / 1000) \<and>
   header_voxel_volume no_rounding (zooms (three_uploads ! 1)) = Inr (8 / 1000) \<and>
   header_voxel_volume no_rounding (zooms (three_uploads ! 2)) = Inr (10 / 1000) \<and>
   recognized three_uploads \<noteq> [] \<and>
   last (recognized three_uploads) = three_uploads ! 2 \<and>
   analyze_voxel_data no_rounding three_uploads =
     result_rows (Some (2 * (10 / 1000))) (Some (3 * (10 / 1000))) (Some (1 * (10 / 1000))) \<and>
   analyze_voxel_data no_rounding three_uploads =
     Inr (zip labels
       [Some (2 * (10 / 1000)), Some (1 * (10 / 1000)), Some (3 * (10 / 1000)),
        Some (212 / 10000000), Some (9196 / 1000000000), Some (27588 / 1000000000),
        Some (1 / 3), Some (36784 / 21200)])"
proof -
  have h: "\<forall>f\<in>set three_uploads. name f \<in> set file_names \<longrightarrow> 3 \<le> length (zooms f)"
    by (simp add: three_uploads_def)
  have r: "recognized three_uploads \<noteq> []"
    by (simp add: three_uploads_recognized) (simp add: three_uploads_def)
  have la: "last (recognized three_uploads) = three_uploads ! 2"
    by (simp add: three_uploads_recognized) (simp add: three_uploads_def)
  have z: "header_voxel_volume no_rounding (zooms (three_uploads ! 0)) = Inr (1 / 1000) \<and>
   header_voxel_volume no_rounding (zooms (three_uploads ! 1)) = Inr (8 / 1000) \<and>
   header_voxel_volume no_rounding (zooms (three_uploads ! 2)) = Inr (10 / 1000)"
    by (simp add: three_uploads_def header_voxel_volume_eq no_rounding_def)
  have c: "sample_count ''skeletal_muscle.nii.gz'' three_uploads = 2"
      "sample_count ''torso_fat.nii.gz'' three_uploads = 3"
      "sample_count ''subcutaneous_fat.nii.gz'' three_uploads = 1"
    by (simp_all add: sample_count_def named_def three_uploads_def voxel_count_def)
  from last_voxel_volume_used [OF h r, of no_rounding]
  obtain v where hv: "header_voxel_volume no_rounding (zooms (last (recognized three_uploads))) = Inr v"
    and av: "analyze_voxel_data no_rounding three_uploads =
             result_rows
               (if sample_count ''skeletal_muscle.nii.gz'' three_uploads \<noteq> 0
                then Some (of_int (sample_count ''skeletal_muscle.nii.gz'' three_uploads) * v) else None)
               (if sample_count ''torso_fat.nii.gz'' three_uploads \<noteq> 0
                then Some (of_int (sample_count ''torso_fat.nii.gz'' three_uploads) * v) else None)
               (if sample_count ''subcutaneous_fat.nii.gz'' three_uploads \<noteq> 0
                then Some (of_int (sample_count ''subcutaneous_fat.nii.gz'' three_uploads) * v) else None)"
    by blast
  from hv la z have v: "v = 10 / 1000" by simp
  have a: "analyze_voxel_data no_rounding three_uploads =
     result_rows (Some (2 * (10 / 1000))) (Some (3 * (10 / 1000))) (Some (1 * (10 / 1000)))"
    using av unfolding c v by simp
  have "result_rows (Some (2 * (10 / 1000))) (Some (3 * (10 / 1000))) (Some (1 * (10 / 1000))) =
     Inr (zip labels
       [Some (2 * (10 / 1000)), Some (1 * (10 / 1000)), Some (3 * (10 / 1000)),
        Some (212 / 10000000), Some (9196 / 1000000000), Some (27588 / 1000000000),
        Some (1 / 3), Some (36784 / 21200)])"
    by (simp add: result_rows_def mass_of_cases masse_vol_graisse_def masse_vol_muscle_def
        py_truediv_def py_add_def and_then_def)
  with a z r la show ?thesis by simp
qed

subsection \<open>What is read from one file\<close>

lemma voxel_count_card:
  "voxel_count d = int (card {i. i < length d \<and> 0 < d ! i})"
  by (simp add: voxel_count_def length_filter_conv_card)

text \<open>
  C9. The spacings of a header are sizes, none of them negative, and rounding keeps a
  number that is not negative so. Reading a recognized file with its three spacings then
  stores, under the name of the file, the number of voxels whose intensity is greater than
  0, and sets \<^verbatim>\<open>voxel_volume\<close> to the product of the three spacings divided by 1000, as
  single precision computes it: \<^verbatim>\<open>abs\<close> changes nothing. In exact arithmetic that is
  the product of the three spacings divided by 1000.
\<close>

theorem read_file_count_and_volume:
  assumes "name f \<in> set file_names" and "3 \<le> length (zooms f)"
      and "\<forall>i<3. 0 \<le> zooms f ! i"
      and "\<forall>x. 0 \<le> x \<longrightarrow> 0 \<le> fl x"
  shows "read_file fl f (vd, vv) =
           Inr (vd(name f \<mapsto> int (card {i. i < length (data f) \<and> 0 < data f ! i})),
                Some (fl (fl (fl (zooms f ! 0 * zooms f ! 1) * zooms f ! 2) / 1000))) \<and>
         read_file no_rounding f (vd, vv) =
           Inr (vd(name f \<mapsto> int (card {i. i < length (data f) \<and> 0 < data f ! i})),
                Some (zooms f ! 0 * zooms f ! 1 * zooms f ! 2 / 1000))"
proof -
  have z: "0 \<le> zooms f ! 0" "0 \<le> zooms f ! 1" "0 \<le> zooms f ! 2"
    using assms(3) by simp_all
  have "0 \<le> fl (zooms f ! 0 * zooms f ! 1)"
    using assms(4) z by simp
  then have p: "0 \<le> fl (fl (zooms f ! 0 * zooms f ! 1) * zooms f ! 2)"
    using assms(4) z by simp
  have q: "0 \<le> zooms f ! 0 * zooms f ! 1 * zooms f ! 2"
    using z by simp
  show ?thesis
    using assms(1,2) p q
    by (simp add: read_file_def header_voxel_volume_eq and_then_def voxel_count_card
        no_rounding_def)
qed

theorem read_file_count_and_volume_witness:
  "name muscle_upload \<in> set file_names \<and> 3 \<le> length (zooms muscle_upload) \<and>
   read_file no_rounding muscle_upload (Map.empty, None) =
     Inr ([''skeletal_muscle.nii.gz'' \<mapsto> 2], Some (6 / 1000)) \<and>
   int (card {i. i < length (data muscle_upload) \<and> 0 < data muscle_upload ! i}) = 2"
proof -
  have n: "name muscle_upload \<in> set file_names" and z: "3 \<le> length (zooms muscle_upload)"
    by (simp_all add: muscle_upload_def file_names_def)
  have s: "\<forall>i<3. 0 \<le> zooms muscle_upload ! i"
    by (simp add: muscle_upload_def less_Suc_eq numeral_3_eq_3)
  have f: "\<forall>x. 0 \<le> x \<longrightarrow> 0 \<le> no_rounding x"
    by (simp add: no_rounding_def)
  have "voxel_count (data muscle_upload) = 2"
    by (simp add: muscle_upload_def voxel_count_def)
  then have c: "int (card {i. i < length (data muscle_upload) \<and> 0 < data muscle_upload ! i}) = 2"
    by (simp add: voxel_count_card)
  from read_file_count_and_volume [OF n z s f, of Map.empty None] c
  have "read_file no_rounding muscle_upload (Map.empty, None) =
          Inr ([''skeletal_muscle.nii.gz'' \<mapsto> 2], Some (6 / 1000))"
    by (simp add: muscle_upload_def no_rounding_def)
  with n z c show ?thesis by blast
qed

subsection \<open>The gate of the main page\<close>

lemma names_match_iff:
  "filter (\<lambda>f. f \<notin> set (map name fs)) file_names = [] \<and>
   filter (\<lambda>f. f \<notin> set file_names) (map name fs) = [] \<longleftrightarrow>
   set (map name fs) = set file_names"
  by (auto simp: filter_empty_conv)

lemma main_page_cases:
  "main_page fl fs =
     (if fs = [] then Nothing_shown
      else if set (map name fs) \<noteq> set file_names
      then Error_shown (filter (\<lambda>f. f \<notin> set (map name fs)) file_names)
                       (filter (\<lambda>f. f \<notin> set file_names) (map name fs))
      else if length fs = 3 then Results_shown (analyze_voxel_data fl fs)
      else Warning_shown)"
  using names_match_iff [of fs] by (auto simp: main_page_def Let_def)

lemma card_file_names: "card (set file_names) = 3"
  by (simp add: file_names_def)

text \<open>
  C7. For a non-empty upload whose set of names is not the set of the three required
  names, the page shows the error with the required names that are missing and the
  uploaded names that are not required (one of the two lists is not empty). If the names
  match and the number of files is not 3, it shows the warning. \<open>analyze_voxel_data\<close>
  is called, and its outcome shown, exactly when the names match and there are three
  files; the three files then have three different names.
\<close>

theorem gate_outcomes:
  "(fs \<noteq> [] \<and> set (map name fs) \<noteq> set file_names \<longrightarrow>
      main_page fl fs = Error_shown (filter (\<lambda>f. f \<notin> set (map name fs)) file_names)
                                 (filter (\<lambda>f. f \<notin> set file_names) (map name fs)) \<and>
      (filter (\<lambda>f. f \<notin> set (map name fs)) file_names \<noteq> [] \<or>
       filter (\<lambda>f. f \<notin> set file_names) (map name fs) \<noteq> [])) \<and>
   (fs \<noteq> [] \<and> set (map name fs) = set file_names \<and> length fs \<noteq> 3 \<longrightarrow>
      main_page fl fs = Warning_shown) \<and>
   ((\<exists>r. main_page fl fs = Results_shown r) \<longleftrightarrow>
      set (map name fs) = set file_names \<and> length fs = 3) \<and>
   (set (map name fs) = set file_names \<and> length fs = 3 \<longrightarrow>
      main_page fl fs = Results_shown (analyze_voxel_data fl fs) \<and> distinct (map name fs))"
proof -
  have d: "distinct (map name fs)" if "set (map name fs) = set file_names" and "length fs = 3"
  proof -
    have "card (set (map name fs)) = length (map name fs)"
      using that card_file_names by simp
    then show ?thesis by (rule card_distinct)
  qed
  have lists: "filter (\<lambda>f. f \<notin> set (map name fs)) file_names \<noteq> [] \<or>
       filter (\<lambda>f. f \<notin> set file_names) (map name fs) \<noteq> []"
    if "set (map name fs) \<noteq> set file_names"
    using that names_match_iff [of fs] by blast
  show ?thesis
  proof (cases "fs = []")
    case True
    then show ?thesis by (simp add: main_page_cases file_names_def)
  next
    case ne: False
    show ?thesis
    proof (cases "set (map name fs) = set file_names")
      case False
      then show ?thesis using ne lists by (simp add: main_page_cases)
    next
      case m: True
      show ?thesis
      proof (cases "length fs = 3")
        case True
        then show ?thesis using ne m d by (simp add: main_page_cases)
      next
        case False
        then show ?thesis using ne m by (simp add: main_page_cases)
      qed
    qed
  qed
qed

theorem gate_outcomes_witness:
  "main_page no_rounding misnamed_uploads =
     Error_shown [''subcutaneous_fat.nii.gz'', ''torso_fat.nii.gz''] [''liver.nii.gz''] \<and>
   set (map name duplicate_uploads) = set file_names \<and> length duplicate_uploads = 4 \<and>
   main_page no_rounding duplicate_uploads = Warning_shown \<and>
   set (map name three_uploads) = set file_names \<and> length three_uploads = 3 \<and>
   main_page no_rounding three_uploads = Results_shown (analyze_voxel_data no_rounding three_uploads)"
proof -
  have "''liver.nii.gz'' \<in> set (map name misnamed_uploads)"
    by (simp add: misnamed_uploads_def)
  moreover have "''liver.nii.gz'' \<notin> set file_names"
    by (simp add: file_names_def)
  moreover have "misnamed_uploads \<noteq> []"
    by (simp add: misnamed_uploads_def)
  ultimately have m: "misnamed_uploads \<noteq> [] \<and> set (map name misnamed_uploads) \<noteq> set file_names"
    by metis
  have dd: "duplicate_uploads \<noteq> [] \<and> set (map name duplicate_uploads) = set file_names \<and>
           length duplicate_uploads \<noteq> 3" and dl: "length duplicate_uploads = 4"
    by (simp_all add: duplicate_uploads_def three_uploads_def file_names_def)
  have t: "set (map name three_uploads) = set file_names \<and> length three_uploads = 3"
    by (simp add: three_uploads_def file_names_def)
  have "main_page no_rounding misnamed_uploads =
          Error_shown (filter (\<lambda>f. f \<notin> set (map name misnamed_uploads)) file_names)
                      (filter (\<lambda>f. f \<notin> set file_names) (map name misnamed_uploads))"
    using gate_outcomes [of misnamed_uploads no_rounding] m by blast
  then have 1: "main_page no_rounding misnamed_uploads =
     Error_shown [''subcutaneous_fat.nii.gz'', ''torso_fat.nii.gz''] [''liver.nii.gz'']"
    by (simp add: misnamed_uploads_def file_names_def)
  have 2: "main_page no_rounding duplicate_uploads = Warning_shown"
    using gate_outcomes [of duplicate_uploads no_rounding] dd by blast
  have 3: "main_page no_rounding three_uploads = Results_shown (analyze_voxel_data no_rounding three_uploads)"
    using gate_outcomes [of three_uploads no_rounding] t by blast
  from 1 2 3 dd dl t show ?thesis by blast
qed

text \<open>The uploads with the empty visceral-fat mask pass the gate, and the page gets the exception.\<close>

lemma main_page_empty_torso_uploads:
  "main_page no_rounding empty_torso_uploads = Results_shown (Inl TypeError)"
proof -
  have "set (map name empty_torso_uploads) = set file_names \<and> length empty_torso_uploads = 3"
    by (simp add: empty_torso_uploads_def file_names_def)
  moreover have "analyze_voxel_data no_rounding empty_torso_uploads = Inl TypeError"
    using empty_torso_uploads_load
    by (simp add: analyze_voxel_data_def and_then_def compute_metrics_def
      tissue_volumes_def get_count_def volume_of_def py_mul_count_def result_rows_def
      mass_of_cases py_truediv_def masse_vol_graisse_def)
  moreover have "empty_torso_uploads \<noteq> []"
    by (simp add: empty_torso_uploads_def)
  ultimately show ?thesis by (simp add: main_page_cases)
qed

end
